theory Spec2Isabelle
  imports Complex_Main "HOL-Library.Word"
begin

section \<open>Values of the runtime\<close>

text \<open>
  The converter is browser JavaScript. A byte of an \<open>ArrayBuffer\<close> or of a typed array is
  an \<open>8 word\<close>; a string is its sequence of UTF-16 code units. Exceptions are values:
  every function that can throw returns \<open>js_error + 'a\<close>, with \<open>Inl\<close> the exception.
\<close>

type_synonym byte = "8 word"

type_synonym jsstring = "16 word list"

definition js :: "string \<Rightarrow> jsstring" where
  "js s = map (\<lambda>c. of_nat (of_char c)) s"

datatype js_error =
    Error string
  | TypeError
  | RangeError
  | URIError
  | DOMException string

text \<open>
  A \<open>Blob\<close> is kept as the arguments of its constructor: the parts and the \<open>type\<close>
  option.
\<close>

datatype blob_part = BufferPart "byte list" | StringPart jsstring

record blob =
  blobParts :: "blob_part list"
  blob_type :: jsstring

section \<open>The DataView of the bitmap writer\<close>

text \<open>
  \<open>NumericToRawBytes\<close> for the integer element types, little-endian: byte \<open>k\<close> is
  the value shifted right by \<open>8 * k\<close> bits, reduced modulo 256 (the conversion to a
  byte does the reduction). Signed and unsigned stores of the same width write the same
  bytes.
\<close>

definition raw_bytes :: "nat \<Rightarrow> int \<Rightarrow> byte list" where
  "raw_bytes n v = map (\<lambda>k. word_of_int (v div 256 ^ k)) [0..<n]"

text \<open>
  \<open>SetViewValue\<close>: a store that does not fit into the buffer throws a RangeError and
  changes nothing.
\<close>

definition setView :: "nat \<Rightarrow> byte list \<Rightarrow> nat \<Rightarrow> int \<Rightarrow> js_error + byte list" where
  "setView n dv byteOffset v =
     (if byteOffset + n \<le> length dv
      then Inr (take byteOffset dv @ raw_bytes n v @ drop (byteOffset + n) dv)
      else Inl RangeError)"

definition setUint8 :: "byte list \<Rightarrow> nat \<Rightarrow> int \<Rightarrow> js_error + byte list" where
  "setUint8 = setView 1"

definition setUint16 :: "byte list \<Rightarrow> nat \<Rightarrow> int \<Rightarrow> js_error + byte list" where
  "setUint16 = setView 2"

definition setUint32 :: "byte list \<Rightarrow> nat \<Rightarrow> int \<Rightarrow> js_error + byte list" where
  "setUint32 = setView 4"

definition setInt32 :: "byte list \<Rightarrow> nat \<Rightarrow> int \<Rightarrow> js_error + byte list" where
  "setInt32 = setView 4"

text \<open>Sequencing of calls that can throw.\<close>

definition bind :: "js_error + 'a \<Rightarrow> ('a \<Rightarrow> js_error + 'b) \<Rightarrow> js_error + 'b" where
  "bind m f = (case m of Inl e \<Rightarrow> Inl e | Inr x \<Rightarrow> f x)"

text \<open>
  What a bitmap reader gets back from the file: \<open>getUint32\<close> and \<open>getInt32\<close> of a
  DataView, little-endian.
\<close>

definition getUint32 :: "byte list \<Rightarrow> nat \<Rightarrow> nat" where
  "getUint32 dv byteOffset =
     unat (dv ! byteOffset) + 256 * unat (dv ! (byteOffset + 1))
       + 65536 * unat (dv ! (byteOffset + 2)) + 16777216 * unat (dv ! (byteOffset + 3))"

definition getInt32 :: "byte list \<Rightarrow> nat \<Rightarrow> int" where
  "getInt32 dv byteOffset =
     (let u = int (getUint32 dv byteOffset) in if u < 2147483648 then u else u - 4294967296)"

definition getUint16 :: "byte list \<Rightarrow> nat \<Rightarrow> nat" where
  "getUint16 dv byteOffset = unat (dv ! byteOffset) + 256 * unat (dv ! (byteOffset + 1))"

section \<open>canvasToBMP\<close>

text \<open>
  A canvas as the bitmap writer sees it: its dimensions and the RGBA bytes that
  \<open>getImageData(0, 0, width, height).data\<close> holds, four per pixel, rows from top to
  bottom.
\<close>

record canvas =
  width :: nat
  height :: nat
  pixels :: "byte list"

text \<open>\<open>getImageData\<close> throws an IndexSizeError for an empty rectangle.\<close>

definition getImageData :: "canvas \<Rightarrow> js_error + byte list" where
  "getImageData c =
     (if width c = 0 \<or> height c = 0 then Inl (DOMException ''IndexSizeError'')
      else Inr (pixels c))"

text \<open>
  Reading a typed array beyond its end gives \<open>undefined\<close>, which \<open>setUint8\<close> stores
  as 0.
\<close>

definition at_index :: "byte list \<Rightarrow> nat \<Rightarrow> int" where
  "at_index ps i = (if i < length ps then uint (ps ! i) else 0)"

definition rowStride :: "nat \<Rightarrow> nat" where
  "rowStride w = (24 * w + 31) div 32 * 4"

definition pixelArraySize :: "nat \<Rightarrow> nat \<Rightarrow> nat" where
  "pixelArraySize w h = rowStride w * h"

definition fileSize :: "nat \<Rightarrow> nat \<Rightarrow> nat" where
  "fileSize w h = 54 + pixelArraySize w h"

text \<open>BITMAPFILEHEADER (14 bytes), written from offset 0; returns the next offset too.\<close>

definition write_file_header :: "byte list \<Rightarrow> nat \<Rightarrow> js_error + byte list \<times> nat" where
  "write_file_header dv fsize =
     (let offset = 0 in
      bind (setUint8 dv offset 0x42) (\<lambda>dv. let offset = offset + 1 in
      bind (setUint8 dv offset 0x4D) (\<lambda>dv. let offset = offset + 1 in
      bind (setUint32 dv offset (int fsize)) (\<lambda>dv. let offset = offset + 4 in
      bind (setUint16 dv offset 0) (\<lambda>dv. let offset = offset + 2 in
      bind (setUint16 dv offset 0) (\<lambda>dv. let offset = offset + 2 in
      bind (setUint32 dv offset 54) (\<lambda>dv. let offset = offset + 4 in
      Inr (dv, offset))))))))"

text \<open>BITMAPINFOHEADER (40 bytes).\<close>

definition write_info_header ::
  "byte list \<Rightarrow> nat \<Rightarrow> nat \<Rightarrow> nat \<Rightarrow> nat \<Rightarrow> js_error + byte list \<times> nat" where
  "write_info_header dv offset w h psize =
     bind (setUint32 dv offset 40) (\<lambda>dv. let offset = offset + 4 in
     bind (setInt32 dv offset (int w)) (\<lambda>dv. let offset = offset + 4 in
     bind (setInt32 dv offset (int h)) (\<lambda>dv. let offset = offset + 4 in
     bind (setUint16 dv offset 1) (\<lambda>dv. let offset = offset + 2 in
     bind (setUint16 dv offset 24) (\<lambda>dv. let offset = offset + 2 in
     bind (setUint32 dv offset 0) (\<lambda>dv. let offset = offset + 4 in
     bind (setUint32 dv offset (int psize)) (\<lambda>dv. let offset = offset + 4 in
     bind (setInt32 dv offset 2835) (\<lambda>dv. let offset = offset + 4 in
     bind (setInt32 dv offset 2835) (\<lambda>dv. let offset = offset + 4 in
     bind (setUint32 dv offset 0) (\<lambda>dv. let offset = offset + 4 in
     bind (setUint32 dv offset 0) (\<lambda>dv. let offset = offset + 4 in
     Inr (dv, offset))))))))))))"

text \<open>
  The inner loop \<open>for (x = 0; x < width; x++)\<close> of row \<open>y\<close>: three stores per pixel,
  blue, green, red, at \<open>p\<close>, \<open>p + 1\<close>, \<open>p + 2\<close>.
\<close>

function pixel_loop :: "byte list \<Rightarrow> nat \<Rightarrow> nat \<Rightarrow> nat \<Rightarrow> byte list \<times> nat
    \<Rightarrow> js_error + byte list \<times> nat" where
  "pixel_loop ps w y x (dv, p) =
     (if x < w then
        (let i = (y * w + x) * 4;
             r = at_index ps i;
             g = at_index ps (i + 1);
             b = at_index ps (i + 2)
         in case setUint8 dv p b of Inl e \<Rightarrow> Inl e | Inr dv1 \<Rightarrow>
           (case setUint8 dv1 (p + 1) g of Inl e \<Rightarrow> Inl e | Inr dv2 \<Rightarrow>
             (case setUint8 dv2 (p + 2) r of Inl e \<Rightarrow> Inl e | Inr dv3 \<Rightarrow>
                pixel_loop ps w y (x + 1) (dv3, p + 3))))
      else Inr (dv, p))"
  by pat_completeness auto
termination
  by (relation "measure (\<lambda>(ps, w, y, x, s). w - x)") auto

text \<open>The padding loop \<open>for (k = 0; k < padding; k++)\<close>.\<close>

function padding_loop :: "nat \<Rightarrow> nat \<Rightarrow> byte list \<times> nat \<Rightarrow> js_error + byte list \<times> nat" where
  "padding_loop padding k (dv, p) =
     (if k < padding then
        (case setUint8 dv p 0 of Inl e \<Rightarrow> Inl e | Inr dv1 \<Rightarrow>
           padding_loop padding (k + 1) (dv1, p + 1))
      else Inr (dv, p))"
  by pat_completeness auto
termination
  by (relation "measure (\<lambda>(padding, k, s). padding - k)") auto

declare pixel_loop.simps [simp del] padding_loop.simps [simp del]

text \<open>
  The outer loop \<open>for (y = height - 1; y >= 0; y--)\<close>. The counter of the model is
  \<open>y + 1\<close>: the loop is entered with \<open>height\<close> and stops at 0.
\<close>

fun row_loop :: "byte list \<Rightarrow> nat \<Rightarrow> nat \<Rightarrow> nat \<Rightarrow> byte list \<times> nat
    \<Rightarrow> js_error + byte list \<times> nat" where
  "row_loop ps w padding 0 (dv, p) = Inr (dv, p)"
| "row_loop ps w padding (Suc y) (dv, p) =
     (case pixel_loop ps w y 0 (dv, p) of Inl e \<Rightarrow> Inl e | Inr s1 \<Rightarrow>
        (case padding_loop padding 0 s1 of Inl e \<Rightarrow> Inl e | Inr s2 \<Rightarrow>
           row_loop ps w padding y s2))"

definition canvasToBMP :: "canvas \<Rightarrow> js_error + blob" where
  "canvasToBMP c =
     (let w = width c; h = height c in
      bind (getImageData c) (\<lambda>ps.
        let buffer = replicate (fileSize w h) (0 :: byte) in
        bind (write_file_header buffer (fileSize w h)) (\<lambda>(dv, offset).
        bind (write_info_header dv offset w h (pixelArraySize w h)) (\<lambda>(dv, offset).
          let padding = rowStride w - w * 3; p = 54 in
          bind (row_loop ps w padding h (dv, p)) (\<lambda>(dv, p).
            Inr \<lparr>blobParts = [BufferPart dv], blob_type = js ''image/bmp''\<rparr>)))))"

text \<open>The bytes of the file that \<open>canvasToBMP\<close> returns (none when it throws).\<close>

definition bmp_bytes :: "canvas \<Rightarrow> byte list" where
  "bmp_bytes c =
     (case canvasToBMP c of
        Inl e \<Rightarrow> []
      | Inr b \<Rightarrow> (case blobParts b of [BufferPart bs] \<Rightarrow> bs | _ \<Rightarrow> []))"

section \<open>Strings\<close>

text \<open>
  \<open>String.prototype.split\<close> with a separator of one code unit, the only use the
  source makes of it: the pieces between the separators, at least one piece.
\<close>

fun split :: "16 word \<Rightarrow> jsstring \<Rightarrow> jsstring list" where
  "split sep [] = [[]]"
| "split sep (c # cs) =
     (if c = sep then [] # split sep cs
      else (case split sep cs of [] \<Rightarrow> [[c]] | p # ps \<Rightarrow> (c # p) # ps))"

text \<open>An array element; \<open>None\<close> is \<open>undefined\<close>.\<close>

definition element :: "'a list \<Rightarrow> nat \<Rightarrow> 'a option" where
  "element xs i = (if i < length xs then Some (xs ! i) else None)"

text \<open>\<open>String.prototype.indexOf\<close>: the first position of the pattern, or -1.\<close>

fun indexOf_from :: "nat \<Rightarrow> jsstring \<Rightarrow> jsstring \<Rightarrow> int" where
  "indexOf_from k [] pat = (if pat = [] then int k else -1)"
| "indexOf_from k (c # cs) pat =
     (if take (length pat) (c # cs) = pat then int k else indexOf_from (k + 1) cs pat)"

definition indexOf :: "jsstring \<Rightarrow> jsstring \<Rightarrow> int" where
  "indexOf s pat = indexOf_from 0 s pat"

text \<open>\<open>ToString\<close> of an argument that may be \<open>undefined\<close>.\<close>

definition ToString :: "jsstring option \<Rightarrow> jsstring" where
  "ToString v = (case v of None \<Rightarrow> js ''undefined'' | Some s \<Rightarrow> s)"

section \<open>The runtime\<close>

record image =
  naturalWidth :: nat
  naturalHeight :: nat
  bitmap :: "byte list"

text \<open>
  \<open>canvas.toBlob(callback, type, quality)\<close> either throws, or calls the callback
  with a blob or with \<open>null\<close>.
\<close>

datatype toBlob_outcome = Throws js_error | Callback "blob option"

text \<open>
  What the browser provides: decoding an image file (\<open>None\<close> is the \<open>onerror\<close>
  event), the RGBA bytes of a canvas of the given size after the image is drawn onto it,
  the two encoders of a canvas, and the two decoders of strings.
\<close>

record runtime =
  decodeImage :: "blob \<Rightarrow> image option"
  drawImage :: "image \<Rightarrow> nat \<Rightarrow> nat \<Rightarrow> byte list"
  toBlob :: "canvas \<Rightarrow> jsstring \<Rightarrow> real option \<Rightarrow> toBlob_outcome"
  toDataURL :: "canvas \<Rightarrow> jsstring \<Rightarrow> real \<Rightarrow> js_error + jsstring"
  atob :: "jsstring \<Rightarrow> js_error + jsstring"
  decodeURIComponent :: "jsstring \<Rightarrow> js_error + jsstring"

section \<open>dataURLToBlob\<close>

text \<open>
  The loop \<open>for (i = 0; i < s.length; i++) bytes[i] = s.charCodeAt(i)\<close>; a store into
  a \<open>Uint8Array\<close> keeps the low 8 bits of the number.
\<close>

function charCode_loop :: "jsstring \<Rightarrow> nat \<Rightarrow> byte list \<Rightarrow> byte list" where
  "charCode_loop s i bytes =
     (if i < length s then charCode_loop s (i + 1) (bytes[i := ucast (s ! i)]) else bytes)"
  by pat_completeness auto
termination
  by (relation "measure (\<lambda>(s, i, bytes). length s - i)") auto

declare charCode_loop.simps [simp del]

definition dataURLToBlob :: "runtime \<Rightarrow> jsstring \<Rightarrow> js_error + blob" where
  "dataURLToBlob rt dataURL =
     (let parts = split 0x2C dataURL in
      (case element parts 0 of None \<Rightarrow> Inl TypeError | Some meta \<Rightarrow>
        (let raw = element parts 1;
             isBase64 = (indexOf meta (js ''base64'') \<ge> 0)
         in (case element (split 0x3A meta) 1 of None \<Rightarrow> Inl TypeError | Some t \<Rightarrow>
           (case element (split 0x3B t) 0 of None \<Rightarrow> Inl TypeError | Some contentType \<Rightarrow>
             (if isBase64 then
                bind (atob rt (ToString raw)) (\<lambda>binary.
                  (let bytes = charCode_loop binary 0 (replicate (length binary) 0)
                   in Inr \<lparr>blobParts = [BufferPart bytes], blob_type = contentType\<rparr>))
              else
                bind (decodeURIComponent rt (ToString raw)) (\<lambda>decoded.
                  (let bytes = charCode_loop decoded 0 (replicate (length decoded) 0)
                   in Inr \<lparr>blobParts = [BufferPart bytes], blob_type = contentType\<rparr>))))))))"

section \<open>convertImageFile\<close>

definition loadImageFromFile :: "runtime \<Rightarrow> blob \<Rightarrow> js_error + image" where
  "loadImageFromFile rt file =
     (case decodeImage rt file of
        None \<Rightarrow> Inl (Error ''Failed to load image'')
      | Some img \<Rightarrow> Inr img)"

text \<open>
  \<open>Math.round\<close> rounds to the nearest integer, a half towards \<open>+\<infinity>\<close>. Numbers are
  taken as reals: the product \<open>naturalWidth * scale\<close> is exact in the model.
\<close>

definition Math_round :: "real \<Rightarrow> int" where
  "Math_round x = \<lfloor>x + 1 / 2\<rfloor>"

text \<open>
  A number in a template literal. An integer below \<open>2 ^ 53\<close> prints as its decimal
  digits; the model does not go beyond, where a Number prints its shortest digits and, from
  \<open>10 ^ 21\<close> on, an exponent.
\<close>

function decimal :: "nat \<Rightarrow> jsstring" where
  "decimal n = (if n < 10 then [of_nat (48 + n)] else decimal (n div 10) @ [of_nat (48 + n mod 10)])"
  by pat_completeness auto
termination
  by (relation "measure (\<lambda>n. n)") auto

declare decimal.simps [simp del]

definition Number_toString :: "int \<Rightarrow> jsstring" where
  "Number_toString v = (if v < 0 then 0x2D # decimal (nat (- v)) else decimal (nat v))"

text \<open>The template literal of the SVG wrapper.\<close>

definition svg_template :: "int \<Rightarrow> int \<Rightarrow> jsstring \<Rightarrow> jsstring" where
  \<open>svg_template w h pngData =
     js ''<svg xmlns="http://www.w3.org/2000/svg" width="'' @ Number_toString w
     @ js ''" height="'' @ Number_toString h
     @ js ''"><image href="'' @ pngData
     @ js ''" width="'' @ Number_toString w
     @ js ''" height="'' @ Number_toString h
     @ js ''"/></svg>''\<close>

text \<open>The scaled dimensions, \<open>Math.max(1, Math.round(natural * scale))\<close>.\<close>

definition scaled_width :: "image \<Rightarrow> real \<Rightarrow> int" where
  "scaled_width img scale = max 1 (Math_round (real (naturalWidth img) * scale))"

definition scaled_height :: "image \<Rightarrow> real \<Rightarrow> int" where
  "scaled_height img scale = max 1 (Math_round (real (naturalHeight img) * scale))"

text \<open>
  The canvas after \<open>canvas.width = width\<close>, \<open>canvas.height = height\<close>,
  \<open>clearRect\<close> and \<open>drawImage(img, 0, 0, width, height)\<close>.
\<close>

definition draw_canvas :: "runtime \<Rightarrow> image \<Rightarrow> int \<Rightarrow> int \<Rightarrow> canvas" where
  "draw_canvas rt img w h =
     \<lparr>width = nat w, height = nat h, pixels = drawImage rt img (nat w) (nat h)\<rparr>"

text \<open>
  The conversion. The promise is its outcome: \<open>Inr\<close> the blob it resolves with,
  \<open>Inl\<close> the error it rejects with. The callers pass all four arguments; the defaults of
  \<open>quality\<close> and \<open>scale\<close> are not modelled.
\<close>

definition convertImageFile ::
  "runtime \<Rightarrow> blob \<Rightarrow> jsstring \<Rightarrow> real \<Rightarrow> real \<Rightarrow> js_error + blob" where
  "convertImageFile rt file outType quality scale =
     bind (loadImageFromFile rt file) (\<lambda>img.
       let w = scaled_width img scale;
           h = scaled_height img scale;
           canvas = draw_canvas rt img w h
       in if outType = js ''image/svg+xml'' then
            bind (toDataURL rt canvas (js ''image/png'') quality) (\<lambda>pngData.
              let svg = svg_template w h pngData
              in Inr \<lparr>blobParts = [StringPart svg], blob_type = js ''image/svg+xml''\<rparr>)
          else if outType = js ''image/bmp'' \<or> outType = js ''image/x-ms-bmp'' then
            canvasToBMP canvas
          else
            (let mime = outType in
             case toBlob rt canvas mime (if mime = js ''image/png'' then None else Some quality) of
               Callback (Some blob) \<Rightarrow> Inr blob
             | Callback None \<Rightarrow> Inl (Error ''Conversion to blob failed.'')
             | Throws e \<Rightarrow>
                 bind (toDataURL rt canvas mime quality) (\<lambda>dataURL.
                   dataURLToBlob rt dataURL)))"

section \<open>The bitmap layout, as the specification words it\<close>

text \<open>
  Little-endian encodings of an unsigned 16-bit and 32-bit field. A value that does not
  fit is reduced modulo \<open>2 ^ 16\<close> or \<open>2 ^ 32\<close>; a signed 32-bit field holding a
  value below \<open>2 ^ 31\<close> has the same four bytes.
\<close>

definition le16 :: "nat \<Rightarrow> byte list" where
  "le16 n = [of_nat (n mod 256), of_nat (n div 256 mod 256)]"

definition le32 :: "nat \<Rightarrow> byte list" where
  "le32 n = [of_nat (n mod 256), of_nat (n div 256 mod 256),
             of_nat (n div 65536 mod 256), of_nat (n div 16777216 mod 256)]"

text \<open>
  The pixel array: pixel \<open>(x, y)\<close> of the source as blue, green, red; a row as its
  pixels from left to right followed by the padding; the rows from the last to the first.
\<close>

definition bgr :: "byte list \<Rightarrow> nat \<Rightarrow> nat \<Rightarrow> nat \<Rightarrow> byte list" where
  "bgr ps w y x =
     [ps ! ((y * w + x) * 4 + 2), ps ! ((y * w + x) * 4 + 1), ps ! ((y * w + x) * 4)]"

definition bmp_row :: "byte list \<Rightarrow> nat \<Rightarrow> nat \<Rightarrow> byte list" where
  "bmp_row ps w y = concat (map (bgr ps w y) [0..<w]) @ replicate (rowStride w - w * 3) 0"

definition bmp_pixel_array :: "byte list \<Rightarrow> nat \<Rightarrow> nat \<Rightarrow> byte list" where
  "bmp_pixel_array ps w h = concat (map (bmp_row ps w) (rev [0..<h]))"

text \<open>The 2 by 2 image of the byte-exactness test, and an image of 4 GiB of pixels.\<close>

definition example_canvas :: canvas where
  "example_canvas = \<lparr>width = 2, height = 2,
     pixels = [255, 0, 0, 255,  0, 255, 0, 255,  0, 0, 255, 255,  255, 255, 0, 255]\<rparr>"


subsection \<open>What the stores of the writer leave in the buffer\<close>

definition stored :: "byte list \<Rightarrow> nat \<Rightarrow> byte" where
  "stored ps i = word_of_int (at_index ps i)"

definition row_from :: "byte list \<Rightarrow> nat \<Rightarrow> nat \<Rightarrow> nat \<Rightarrow> byte list" where
  "row_from ps w y x =
     concat (map (\<lambda>x. [stored ps ((y * w + x) * 4 + 2), stored ps ((y * w + x) * 4 + 1),
                        stored ps ((y * w + x) * 4)]) [x..<w])"

definition stored_pixel_array :: "byte list \<Rightarrow> nat \<Rightarrow> nat \<Rightarrow> byte list" where
  "stored_pixel_array ps w h =
     concat (map (\<lambda>y. row_from ps w y 0 @ replicate (rowStride w - w * 3) 0) (rev [0..<h]))"

definition file_header_bytes :: "nat \<Rightarrow> byte list" where
  "file_header_bytes fsize =
     raw_bytes 1 0x42 @ raw_bytes 1 0x4D @ raw_bytes 4 (int fsize) @ raw_bytes 2 0
       @ raw_bytes 2 0 @ raw_bytes 4 54"

definition info_header_bytes :: "nat \<Rightarrow> nat \<Rightarrow> nat \<Rightarrow> byte list" where
  "info_header_bytes w h psize =
     raw_bytes 4 40 @ raw_bytes 4 (int w) @ raw_bytes 4 (int h) @ raw_bytes 2 1 @ raw_bytes 2 24
       @ raw_bytes 4 0 @ raw_bytes 4 (int psize) @ raw_bytes 4 2835 @ raw_bytes 4 2835
       @ raw_bytes 4 0 @ raw_bytes 4 0"

section \<open>The standard decoders\<close>

text \<open>
  \<open>atob\<close> after the HTML Standard (forgiving-base64 decode): ASCII whitespace is
  dropped; one or two trailing \<open>=\<close> are dropped when the length is a multiple of 4; a
  length of 1 modulo 4 or a code unit outside the alphabet is an InvalidCharacterError;
  every four digits give three bytes, a last group of two or three digits one or two.
\<close>

definition base64_digit :: "16 word \<Rightarrow> nat option" where
  "base64_digit c =
     (let n = unat c in
      if 65 \<le> n \<and> n \<le> 90 then Some (n - 65)
      else if 97 \<le> n \<and> n \<le> 122 then Some (n - 71)
      else if 48 \<le> n \<and> n \<le> 57 then Some (n + 4)
      else if n = 43 then Some 62
      else if n = 47 then Some 63
      else None)"

fun base64_groups :: "nat list \<Rightarrow> jsstring" where
  "base64_groups (a # b # c # d # ds) =
     [of_nat (a * 4 + b div 16), of_nat (b mod 16 * 16 + c div 4), of_nat (c mod 4 * 64 + d)]
       @ base64_groups ds"
| "base64_groups [a, b, c] = [of_nat (a * 4 + b div 16), of_nat (b mod 16 * 16 + c div 4)]"
| "base64_groups [a, b] = [of_nat (a * 4 + b div 16)]"
| "base64_groups ds = []"

definition strip_padding :: "jsstring \<Rightarrow> jsstring" where
  "strip_padding d =
     (if length d mod 4 = 0 \<and> d \<noteq> [] \<and> last d = 0x3D then
        (if butlast d \<noteq> [] \<and> last (butlast d) = 0x3D then butlast (butlast d) else butlast d)
      else d)"

definition std_atob :: "jsstring \<Rightarrow> js_error + jsstring" where
  "std_atob s =
     (let d = strip_padding (filter (\<lambda>c. c \<notin> {0x09, 0x0A, 0x0C, 0x0D, 0x20}) s) in
      if length d mod 4 = 1 \<or> list_ex (\<lambda>c. base64_digit c = None) d
      then Inl (DOMException ''InvalidCharacterError'')
      else Inr (base64_groups (map (\<lambda>c. the (base64_digit c)) d)))"

text \<open>
  \<open>decodeURIComponent\<close> after ECMAScript (Decode with an empty reserved set): an escape
  \<open>%XX\<close> below \<open>0x80\<close> is that code unit; a lead byte with \<open>n\<close> leading one bits,
  \<open>2 \<le> n \<le> 4\<close>, takes the \<open>n - 1\<close> escapes that follow, and the bytes must be the
  UTF-8 encoding of a code point, which is appended in UTF-16; anything else is a URIError.
\<close>

definition hex_digit :: "16 word \<Rightarrow> int option" where
  "hex_digit c =
     (let n = uint c in
      if 48 \<le> n \<and> n \<le> 57 then Some (n - 48)
      else if 65 \<le> n \<and> n \<le> 70 then Some (n - 55)
      else if 97 \<le> n \<and> n \<le> 102 then Some (n - 87)
      else None)"

datatype token = Unit "16 word" | Octet int

fun escapes :: "jsstring \<Rightarrow> token list option" where
  "escapes [] = Some []"
| "escapes (c # cs) =
     (if c = 0x25 then
        (case cs of
           h # l # rest \<Rightarrow>
             (case (hex_digit h, hex_digit l, escapes rest) of
                (Some a, Some b, Some ts) \<Rightarrow> Some (Octet (a * 16 + b) # ts)
              | _ \<Rightarrow> None)
         | _ \<Rightarrow> None)
      else map_option (\<lambda>ts. Unit c # ts) (escapes cs))"

definition leading_ones :: "int \<Rightarrow> nat" where
  "leading_ones b =
     (if b < 0x80 then 0 else if b < 0xC0 then 1 else if b < 0xE0 then 2
      else if b < 0xF0 then 3 else if b < 0xF8 then 4 else 5)"

fun octets :: "token list \<Rightarrow> int list option" where
  "octets [] = Some []"
| "octets (Octet b # ts) = map_option (\<lambda>bs. b # bs) (octets ts)"
| "octets (Unit c # ts) = None"

definition utf8_code_point :: "int list \<Rightarrow> int option" where
  "utf8_code_point bs =
     (case bs of
        [a, b] \<Rightarrow>
          (let v = (a mod 32) * 64 + b mod 64 in
           if b div 64 = 2 \<and> 0x80 \<le> v then Some v else None)
      | [a, b, c] \<Rightarrow>
          (let v = ((a mod 16) * 64 + b mod 64) * 64 + c mod 64 in
           if b div 64 = 2 \<and> c div 64 = 2 \<and> 0x800 \<le> v \<and> (v < 0xD800 \<or> 0xDFFF < v)
           then Some v else None)
      | [a, b, c, d] \<Rightarrow>
          (let v = (((a mod 8) * 64 + b mod 64) * 64 + c mod 64) * 64 + d mod 64 in
           if b div 64 = 2 \<and> c div 64 = 2 \<and> d div 64 = 2 \<and> 0x10000 \<le> v \<and> v \<le> 0x10FFFF
           then Some v else None)
      | _ \<Rightarrow> None)"

definition utf16 :: "int \<Rightarrow> jsstring" where
  "utf16 v =
     (if v < 0x10000 then [word_of_int v]
      else [word_of_int (0xD800 + (v - 0x10000) div 1024),
            word_of_int (0xDC00 + (v - 0x10000) mod 1024)])"

fun decode_tokens :: "token list \<Rightarrow> jsstring option" where
  "decode_tokens [] = Some []"
| "decode_tokens (Unit c # ts) = map_option (\<lambda>s. c # s) (decode_tokens ts)"
| "decode_tokens (Octet b # ts) =
     (let n = leading_ones b in
      if n = 0 then map_option (\<lambda>s. word_of_int b # s) (decode_tokens ts)
      else if n = 1 \<or> n > 4 \<or> length ts < n - 1 then None
      else
        (case octets (take (n - 1) ts) of
           None \<Rightarrow> None
         | Some bs \<Rightarrow>
             (case utf8_code_point (b # bs) of
                None \<Rightarrow> None
              | Some v \<Rightarrow> map_option (\<lambda>s. utf16 v @ s) (decode_tokens (drop (n - 1) ts)))))"

definition std_decodeURIComponent :: "jsstring \<Rightarrow> js_error + jsstring" where
  "std_decodeURIComponent s =
     (case escapes s of
        None \<Rightarrow> Inl URIError
      | Some ts \<Rightarrow> (case decode_tokens ts of None \<Rightarrow> Inl URIError | Some r \<Rightarrow> Inr r))"

text \<open>
  A runtime for the examples: the standard decoders, and canvas encoders that return fixed
  data. Its \<open>toBlob\<close> has the outcome given.
\<close>

definition example_image :: image where
  "example_image = \<lparr>naturalWidth = 3, naturalHeight = 2, bitmap = []\<rparr>"

definition example_runtime :: "toBlob_outcome \<Rightarrow> runtime" where
  "example_runtime native =
     \<lparr>decodeImage = (\<lambda>file. if blobParts file = [] then None else Some example_image),
      drawImage = (\<lambda>img w h. replicate (4 * w * h) 255),
      toBlob = (\<lambda>c mime q. native),
      toDataURL = (\<lambda>c mime q. Inr (js ''data:'' @ mime @ js '';base64,iVBORw0KGgo='')),
      atob = std_atob,
      decodeURIComponent = std_decodeURIComponent\<rparr>"

definition example_file :: blob where
  "example_file = \<lparr>blobParts = [BufferPart [1, 2, 3]], blob_type = js ''image/gif''\<rparr>"


section \<open>Stores into a zeroed buffer\<close>

text \<open>
  The writer fills its buffer from left to right. A store at the end of the part written so
  far, into the zeros that follow, appends its bytes and cannot throw while zeros remain;
  each loop is followed by induction on the number of its iterations.
\<close>

lemma stored_in: "i < length ps \<Longrightarrow> stored ps i = ps ! i"
  by (simp add: stored_def at_index_def)

lemma length_raw_bytes: "length (raw_bytes n v) = n"
  by (simp add: raw_bytes_def)

lemma raw_bytes_1: "raw_bytes (Suc 0) v = [word_of_int v]"
  by (simp add: raw_bytes_def)

lemma setView_zeros:
  "length pre = off \<Longrightarrow> n \<le> m \<Longrightarrow>
   setView n (pre @ replicate m 0) off v = Inr ((pre @ raw_bytes n v) @ replicate (m - n) 0)"
  by (simp add: setView_def)

lemma setUint8_zeros:
  "length pre = off \<Longrightarrow>
   setUint8 (pre @ replicate (Suc m) 0) off v = Inr ((pre @ [word_of_int v]) @ replicate m 0)"
  using setView_zeros[of pre off 1 "Suc m" v] by (simp add: setUint8_def raw_bytes_1)

lemma row_from_done: "w \<le> x \<Longrightarrow> row_from ps w y x = []"
  by (simp add: row_from_def)

lemma row_from_step: "x < w \<Longrightarrow> row_from ps w y x =
   [stored ps ((y * w + x) * 4 + 2), stored ps ((y * w + x) * 4 + 1), stored ps ((y * w + x) * 4)] @ row_from ps w y (Suc x)"
  by (simp add: row_from_def upt_conv_Cons)

lemma pixel_loop_zeros:
  "k = w - x \<Longrightarrow> m = 3 * k + m' \<Longrightarrow>
   pixel_loop ps w y x (pre @ replicate m 0, length pre) =
     Inr ((pre @ row_from ps w y x) @ replicate m' 0, length pre + 3 * k)"
proof (induction k arbitrary: x pre m)
  case 0
  then show ?case by (subst pixel_loop.simps) (simp add: row_from_done)
next
  case (Suc k)
  then have x: "x < w" and k: "k = w - Suc x" by auto
  have m: "m = Suc (Suc (Suc (3 * k + m')))" using Suc.prems by simp
  let ?b = "stored ps ((y * w + x) * 4 + 2)"
  let ?g = "stored ps ((y * w + x) * 4 + 1)"
  let ?r = "stored ps ((y * w + x) * 4)"
  have ih: "pixel_loop ps w y (Suc x) ((pre @ [?b, ?g, ?r]) @ replicate (3 * k + m') 0, length (pre @ [?b, ?g, ?r])) =
     Inr (((pre @ [?b, ?g, ?r]) @ row_from ps w y (Suc x)) @ replicate m' 0, length (pre @ [?b, ?g, ?r]) + 3 * k)"
    by (rule Suc.IH[OF k refl])
  have s1: "setUint8 (pre @ replicate m 0) (length pre) (at_index ps ((y * w + x) * 4 + 2))
      = Inr ((pre @ [?b]) @ replicate (Suc (Suc (3 * k + m'))) 0)"
    unfolding m stored_def by (rule setUint8_zeros) simp
  have s2: "setUint8 ((pre @ [?b]) @ replicate (Suc (Suc (3 * k + m'))) 0) (length pre + 1) (at_index ps ((y * w + x) * 4 + 1))
      = Inr (((pre @ [?b]) @ [?g]) @ replicate (Suc (3 * k + m')) 0)"
    unfolding stored_def by (rule setUint8_zeros) simp
  have s3: "setUint8 (((pre @ [?b]) @ [?g]) @ replicate (Suc (3 * k + m')) 0) (length pre + 2) (at_index ps ((y * w + x) * 4))
      = Inr ((((pre @ [?b]) @ [?g]) @ [?r]) @ replicate (3 * k + m') 0)"
    unfolding stored_def by (rule setUint8_zeros) simp
  have "pixel_loop ps w y x (pre @ replicate m 0, length pre) =
        pixel_loop ps w y (Suc x) ((((pre @ [?b]) @ [?g]) @ [?r]) @ replicate (3 * k + m') 0, length pre + 3)"
    by (subst pixel_loop.simps) (simp only: x if_True Let_def s1 s2 s3 sum.case, simp)
  also have "\<dots> = Inr (((pre @ [?b, ?g, ?r]) @ row_from ps w y (Suc x)) @ replicate m' 0, length (pre @ [?b, ?g, ?r]) + 3 * k)"
    using ih by (simp add: numeral_3_eq_3)
  finally show ?case using x by (simp add: row_from_step)
qed

lemma padding_loop_zeros:
  "j = padding - k \<Longrightarrow> m = j + m' \<Longrightarrow>
   padding_loop padding k (pre @ replicate m 0, length pre) =
     Inr ((pre @ replicate j 0) @ replicate m' 0, length pre + j)"
proof (induction j arbitrary: k pre m)
  case 0
  then show ?case by (subst padding_loop.simps) simp
next
  case (Suc j)
  then have k: "k < padding" and j: "j = padding - Suc k" by auto
  have m: "m = Suc (j + m')" using Suc.prems by simp
  have s1: "setUint8 (pre @ replicate m 0) (length pre) 0 = Inr ((pre @ [0]) @ replicate (j + m') 0)"
    unfolding m using setUint8_zeros[of pre "length pre" "j + m'" 0] by simp
  have "padding_loop padding k (pre @ replicate m 0, length pre) =
        padding_loop padding (Suc k) ((pre @ [0]) @ replicate (j + m') 0, length (pre @ [0]))"
    by (subst padding_loop.simps) (simp only: k if_True s1 sum.case, simp)
  also have "\<dots> = Inr (((pre @ [0]) @ replicate j 0) @ replicate m' 0, length (pre @ [0]) + j)"
    by (rule Suc.IH[OF j refl])
  finally show ?case by (simp add: replicate_app_Cons_same)
qed


lemma row_loop_zeros:
  "m = (3 * w + padding) * n + m' \<Longrightarrow>
   row_loop ps w padding n (pre @ replicate m 0, length pre) =
     Inr ((pre @ concat (map (\<lambda>y. row_from ps w y 0 @ replicate padding 0) (rev [0..<n]))) @ replicate m' 0,
          length pre + (3 * w + padding) * n)"
proof (induction n arbitrary: pre m)
  case 0
  then show ?case by simp
next
  case (Suc n)
  let ?rest = "(3 * w + padding) * n + m'"
  let ?row = "row_from ps w n 0"
  have m: "m = 3 * w + (padding + ?rest)" using Suc.prems by (simp add: algebra_simps)
  have p1: "pixel_loop ps w n 0 (pre @ replicate m 0, length pre) =
        Inr ((pre @ ?row) @ replicate (padding + ?rest) 0, length pre + 3 * w)"
    using pixel_loop_zeros[of w w 0 m "padding + ?rest" ps n pre] m by simp
  have p2: "padding_loop padding 0 ((pre @ ?row) @ replicate (padding + ?rest) 0, length (pre @ ?row)) =
        Inr (((pre @ ?row) @ replicate padding 0) @ replicate ?rest 0, length (pre @ ?row) + padding)"
    by (rule padding_loop_zeros) simp_all
  have len: "length ?row = 3 * w"
    by (simp add: row_from_def length_concat comp_def sum_list_triv)
  have p3: "row_loop ps w padding n (((pre @ ?row) @ replicate padding 0) @ replicate ?rest 0, length ((pre @ ?row) @ replicate padding 0)) =
     Inr ((((pre @ ?row) @ replicate padding 0) @ concat (map (\<lambda>y. row_from ps w y 0 @ replicate padding 0) (rev [0..<n]))) @ replicate m' 0,
          length ((pre @ ?row) @ replicate padding 0) + (3 * w + padding) * n)"
    by (rule Suc.IH) simp
  have "row_loop ps w padding (Suc n) (pre @ replicate m 0, length pre) =
        row_loop ps w padding n (((pre @ ?row) @ replicate padding 0) @ replicate ?rest 0, length ((pre @ ?row) @ replicate padding 0))"
    using p2 by (simp add: p1 len add.assoc)
  then show ?case using p3 by (simp add: len algebra_simps)
qed

lemma bind_Inr: "bind (Inr x) f = f x"
  by (simp add: bind_def)


lemma write_file_header_zeros:
  "write_file_header ([] @ replicate (14 + m) 0) fsize =
     Inr (file_header_bytes fsize @ replicate m 0, 14)"
  unfolding write_file_header_def Let_def setUint8_def setUint16_def setUint32_def
  apply (simp add: setView_zeros bind_Inr length_raw_bytes del: append_assoc append_Nil)
  apply (simp add: file_header_bytes_def)
  done

lemma length_file_header_bytes: "length (file_header_bytes fsize) = 14"
  by (simp add: file_header_bytes_def length_raw_bytes)

lemma length_info_header_bytes: "length (info_header_bytes w h psize) = 40"
  by (simp add: info_header_bytes_def length_raw_bytes)

lemma write_info_header_zeros:
  "length pre = 14 \<Longrightarrow> write_info_header (pre @ replicate (40 + m) 0) 14 w h psize =
     Inr ((pre @ info_header_bytes w h psize) @ replicate m 0, 54)"
  unfolding write_info_header_def Let_def setUint16_def setUint32_def setInt32_def
  apply (simp add: setView_zeros bind_Inr length_raw_bytes del: append_assoc append_Nil)
  apply (simp add: info_header_bytes_def)
  done

section \<open>The file that canvasToBMP writes\<close>

text \<open>
  For a canvas that is not empty the allocated buffer is exactly used up: the two headers
  and then, for every row from the last to the first, the stored pixels and the padding.
\<close>

lemma rowStride_ge: "w * 3 \<le> rowStride w"
  unfolding rowStride_def by arith


lemma canvasToBMP_Inr:
  assumes "0 < width c" "0 < height c"
  shows "canvasToBMP c = Inr \<lparr>blobParts = [BufferPart
            (file_header_bytes (fileSize (width c) (height c))
             @ info_header_bytes (width c) (height c) (pixelArraySize (width c) (height c))
             @ stored_pixel_array (pixels c) (width c) (height c))],
          blob_type = js ''image/bmp''\<rparr>"
proof -
  let ?w = "width c" and ?h = "height c"
  let ?pad = "rowStride ?w - ?w * 3"
  let ?fh = "file_header_bytes (fileSize ?w ?h)"
  let ?ih = "info_header_bytes ?w ?h (pixelArraySize ?w ?h)"
  have ps: "pixelArraySize ?w ?h = (3 * ?w + ?pad) * ?h + 0"
    using rowStride_ge[of ?w] by (simp add: pixelArraySize_def)
  have g: "getImageData c = Inr (pixels c)"
    using assms by (simp add: getImageData_def)
  have buf: "replicate (fileSize ?w ?h) (0::byte) = [] @ replicate (14 + (40 + pixelArraySize ?w ?h)) 0"
    by (simp add: fileSize_def)
  have a: "write_file_header (replicate (fileSize ?w ?h) 0) (fileSize ?w ?h) =
      Inr (?fh @ replicate (40 + pixelArraySize ?w ?h) 0, 14)"
    unfolding buf by (rule write_file_header_zeros)
  have b: "write_info_header (?fh @ replicate (40 + pixelArraySize ?w ?h) 0) 14 ?w ?h (pixelArraySize ?w ?h) =
      Inr ((?fh @ ?ih) @ replicate (pixelArraySize ?w ?h) 0, 54)"
    by (rule write_info_header_zeros) (rule length_file_header_bytes)
  have len: "length (?fh @ ?ih) = 54"
    by (simp add: length_file_header_bytes length_info_header_bytes)
  have l: "row_loop (pixels c) ?w ?pad ?h ((?fh @ ?ih) @ replicate (pixelArraySize ?w ?h) 0, length (?fh @ ?ih)) =
      Inr (((?fh @ ?ih) @ stored_pixel_array (pixels c) ?w ?h) @ replicate 0 0,
           length (?fh @ ?ih) + (3 * ?w + ?pad) * ?h)"
    unfolding stored_pixel_array_def by (rule row_loop_zeros) (rule ps)
  have l': "row_loop (pixels c) ?w ?pad ?h ((?fh @ ?ih) @ replicate (pixelArraySize ?w ?h) 0, 54) =
      Inr (?fh @ ?ih @ stored_pixel_array (pixels c) ?w ?h, 54 + (3 * ?w + ?pad) * ?h)"
    using l unfolding len by simp
  show ?thesis
    unfolding canvasToBMP_def Let_def
    by (simp only: g a b l' bind_Inr prod.case)
qed



lemma bmp_bytes_eq:
  assumes "0 < width c" "0 < height c"
  shows "bmp_bytes c = file_header_bytes (fileSize (width c) (height c))
             @ info_header_bytes (width c) (height c) (pixelArraySize (width c) (height c))
             @ stored_pixel_array (pixels c) (width c) (height c)"
  by (simp add: bmp_bytes_def canvasToBMP_Inr[OF assms])

lemma canvasToBMP_returns:
  assumes "0 < width c" "0 < height c"
  shows "canvasToBMP c = Inr \<lparr>blobParts = [BufferPart (bmp_bytes c)], blob_type = js ''image/bmp''\<rparr>"
  by (simp add: bmp_bytes_eq[OF assms] canvasToBMP_Inr[OF assms])


section \<open>Reading the header back\<close>

text \<open>
  The bytes that a store of 2 or 4 bytes writes are the little-endian digits of the value
  to base 256, and reading them back gives the value modulo \<open>2 ^ 16\<close> or \<open>2 ^ 32\<close>.
\<close>

lemma byte_of_int_nat: "(word_of_int (int n div 256 ^ k) :: byte) = of_nat (n div 256 ^ k mod 256)"
proof -
  have "int n div 256 ^ k = int (n div 256 ^ k)"
    by (simp add: zdiv_int)
  then have "(word_of_int (int n div 256 ^ k) :: byte) = of_nat (n div 256 ^ k)"
    by simp
  also have "\<dots> = of_nat (n div 256 ^ k mod 256)"
    by (simp add: word_of_nat_eq_iff take_bit_eq_mod)
  finally show ?thesis .
qed

lemma raw_bytes_4: "raw_bytes 4 (int n) = le32 n"
proof -
  have u: "[0..<4] = [0, 1, 2, 3]" by (simp add: upt_rec)
  show ?thesis
    unfolding raw_bytes_def le32_def u
    using byte_of_int_nat[of n 0] byte_of_int_nat[of n 1] byte_of_int_nat[of n 2] byte_of_int_nat[of n 3]
    by simp
qed

lemma raw_bytes_2: "raw_bytes 2 (int n) = le16 n"
proof -
  have u: "[0..<2] = [0, 1]" by (simp add: upt_rec)
  show ?thesis
    unfolding raw_bytes_def le16_def u
    using byte_of_int_nat[of n 0] byte_of_int_nat[of n 1]
    by simp
qed

lemma unat_byte_mod: "unat (of_nat (n mod 256) :: byte) = n mod 256"
  by (simp add: unat_of_nat)

lemma digits32: "(n::nat) mod 256 + 256 * (n div 256 mod 256) + 65536 * (n div 65536 mod 256)
     + 16777216 * (n div 16777216 mod 256) = n mod 4294967296"
proof -
  have a: "n mod (256 * 16777216) = 256 * (n div 256 mod 16777216) + n mod 256"
    by (rule mod_mult2_eq)
  have b: "(n div 256) mod (256 * 65536) = 256 * (n div 256 div 256 mod 65536) + n div 256 mod 256"
    by (rule mod_mult2_eq)
  have c: "(n div 65536) mod (256 * 256) = 256 * (n div 65536 div 256 mod 256) + n div 65536 mod 256"
    by (rule mod_mult2_eq)
  have d: "n div 256 div 256 = n div 65536" "n div 65536 div 256 = n div 16777216"
    by (simp_all add: div_mult2_eq[symmetric])
  show ?thesis using a b c by (simp add: d)
qed

lemma digits16: "(n::nat) mod 256 + 256 * (n div 256 mod 256) = n mod 65536"
  using mod_mult2_eq[of n 256 256] by simp

lemma getUint32_le32:
  "length pre = off \<Longrightarrow> getUint32 (pre @ le32 n @ rest) off = n mod 4294967296"
  unfolding getUint32_def le32_def
  by (simp add: nth_append unat_byte_mod digits32)

lemma getUint16_le16:
  "length pre = off \<Longrightarrow> getUint16 (pre @ le16 n @ rest) off = n mod 65536"
  unfolding getUint16_def le16_def
  by (simp add: nth_append unat_byte_mod digits16)

lemma getInt32_le32:
  "length pre = off \<Longrightarrow> n < 2147483648 \<Longrightarrow> getInt32 (pre @ le32 n @ rest) off = int n"
  unfolding getInt32_def by (simp add: getUint32_le32)

lemma file_header_bytes_le:
  "file_header_bytes fsize = [0x42, 0x4D] @ le32 fsize @ le16 0 @ le16 0 @ le32 54"
proof -
  have "raw_bytes 4 54 = raw_bytes 4 (int 54)" "raw_bytes 2 0 = raw_bytes 2 (int 0)" by simp_all
  then show ?thesis
    unfolding file_header_bytes_def by (simp only: raw_bytes_4 raw_bytes_2) (simp add: raw_bytes_def)
qed

lemma info_header_bytes_le:
  "info_header_bytes w h psize =
     le32 40 @ le32 w @ le32 h @ le16 1 @ le16 24 @ le32 0 @ le32 psize @ le32 2835 @ le32 2835
       @ le32 0 @ le32 0"
proof -
  have "raw_bytes 4 40 = raw_bytes 4 (int 40)" "raw_bytes 2 1 = raw_bytes 2 (int 1)"
    "raw_bytes 2 24 = raw_bytes 2 (int 24)" "raw_bytes 4 0 = raw_bytes 4 (int 0)"
    "raw_bytes 4 2835 = raw_bytes 4 (int 2835)" by simp_all
  then show ?thesis
    unfolding info_header_bytes_def by (simp only: raw_bytes_4 raw_bytes_2)
qed

lemma length_le32: "length (le32 n) = 4"
  by (simp add: le32_def)

lemma length_le16: "length (le16 n) = 2"
  by (simp add: le16_def)

lemma bmp_bytes_le:
  assumes "0 < width c" "0 < height c"
  shows "bmp_bytes c =
     ([0x42, 0x4D] @ le32 (fileSize (width c) (height c)) @ le16 0 @ le16 0 @ le32 54
      @ le32 40 @ le32 (width c) @ le32 (height c) @ le16 1 @ le16 24 @ le32 0
      @ le32 (pixelArraySize (width c) (height c)) @ le32 2835 @ le32 2835 @ le32 0 @ le32 0)
     @ stored_pixel_array (pixels c) (width c) (height c)"
  by (simp add: bmp_bytes_eq[OF assms] file_header_bytes_le info_header_bytes_le)

section \<open>Claims about the bitmap writer\<close>





text \<open>
  C2. For a canvas of positive width and height, the first 54 bytes of the file are the
  two headers, every field little-endian: \<open>0x42 0x4D\<close>, the file size (u32), two
  reserved u16 fields 0, the offset 54 (u32); then header size 40 (u32), width, height,
  planes 1 (u16), 24 bits per pixel (u16), compression 0 (u32), the pixel array size (u32),
  2835 twice, colours used 0 and important colours 0 (u32). Width and height, which a
  canvas keeps below \<open>2 ^ 31\<close>, read back as signed 32-bit values as themselves, the
  height positive.
\<close>

theorem canvasToBMP_header:
  assumes "0 < width c" and "0 < height c"
  shows "canvasToBMP c = Inr \<lparr>blobParts = [BufferPart (bmp_bytes c)], blob_type = js ''image/bmp''\<rparr>
       \<and> take 54 (bmp_bytes c) =
           [0x42, 0x4D] @ le32 (fileSize (width c) (height c)) @ le16 0 @ le16 0 @ le32 54
           @ le32 40 @ le32 (width c) @ le32 (height c) @ le16 1 @ le16 24 @ le32 0
           @ le32 (pixelArraySize (width c) (height c)) @ le32 2835 @ le32 2835 @ le32 0 @ le32 0
       \<and> (width c < 2 ^ 31 \<longrightarrow> getInt32 (bmp_bytes c) 18 = int (width c))
       \<and> (height c < 2 ^ 31 \<longrightarrow>
            getInt32 (bmp_bytes c) 22 = int (height c) \<and> 0 < getInt32 (bmp_bytes c) 22)"
proof -
  let ?w = "width c" and ?h = "height c"
  let ?rest = "le16 1 @ le16 24 @ le32 0
           @ le32 (pixelArraySize ?w ?h) @ le32 2835 @ le32 2835 @ le32 0 @ le32 0
           @ stored_pixel_array (pixels c) ?w ?h"
  let ?fh = "[0x42, 0x4D] @ le32 (fileSize ?w ?h) @ le16 0 @ le16 0 @ le32 54"
  have a: "take 54 (bmp_bytes c) =
           [0x42, 0x4D] @ le32 (fileSize ?w ?h) @ le16 0 @ le16 0 @ le32 54
           @ le32 40 @ le32 ?w @ le32 ?h @ le16 1 @ le16 24 @ le32 0
           @ le32 (pixelArraySize ?w ?h) @ le32 2835 @ le32 2835 @ le32 0 @ le32 0"
    unfolding bmp_bytes_le[OF assms] by (simp add: length_le32 length_le16)
  have sw: "bmp_bytes c = (?fh @ le32 40) @ le32 ?w @ (le32 ?h @ ?rest)"
    unfolding bmp_bytes_le[OF assms] by simp
  have sh: "bmp_bytes c = (?fh @ le32 40 @ le32 ?w) @ le32 ?h @ ?rest"
    unfolding bmp_bytes_le[OF assms] by simp
  have b: "getInt32 (bmp_bytes c) 18 = int ?w" if "?w < 2 ^ 31"
    by (subst sw, rule getInt32_le32) (use that in \<open>simp_all add: length_le32 length_le16\<close>)
  have c: "getInt32 (bmp_bytes c) 22 = int ?h" if "?h < 2 ^ 31"
    by (subst sh, rule getInt32_le32) (use that in \<open>simp_all add: length_le32 length_le16\<close>)
  show ?thesis using a b c assms canvasToBMP_returns[OF assms] by simp
qed

theorem canvasToBMP_header_witness:
  "0 < width example_canvas \<and> 0 < height example_canvas
   \<and> width example_canvas < 2 ^ 31 \<and> height example_canvas < 2 ^ 31
   \<and> take 54 (bmp_bytes example_canvas) =
       [0x42, 0x4D, 70, 0, 0, 0, 0, 0, 0, 0, 54, 0, 0, 0,
        40, 0, 0, 0, 2, 0, 0, 0, 2, 0, 0, 0, 1, 0, 24, 0, 0, 0, 0, 0, 16, 0, 0, 0,
        0x13, 0x0B, 0, 0, 0x13, 0x0B, 0, 0, 0, 0, 0, 0, 0, 0, 0, 0]
   \<and> getInt32 (bmp_bytes example_canvas) 18 = 2
   \<and> getInt32 (bmp_bytes example_canvas) 22 = 2"
  using canvasToBMP_header[of example_canvas]
  by (simp add: example_canvas_def fileSize_def pixelArraySize_def rowStride_def le32_def le16_def)

lemma stored_pixel_array_eq:
  assumes "length ps = 4 * w * h"
  shows "stored_pixel_array ps w h = bmp_pixel_array ps w h"
proof -
  have px: "stored ps ((y * w + x) * 4 + j) = ps ! ((y * w + x) * 4 + j)"
    if "y < h" "x < w" "j < 4" for x y j
  proof -
    have "y * w + x < Suc y * w" using that by simp
    also have "\<dots> \<le> h * w" using that by (intro mult_le_mono1) simp
    finally have lt: "y * w + x < h * w" .
    have "(y * w + x) * 4 + j < Suc (y * w + x) * 4" using that by simp
    also have "\<dots> \<le> (h * w) * 4" using lt by (intro mult_le_mono1) simp
    finally have "(y * w + x) * 4 + j < 4 * w * h" by (simp add: mult_ac)
    then show ?thesis using assms by (simp add: stored_in)
  qed
  have row: "row_from ps w y 0 = concat (map (bgr ps w y) [0..<w])" if "y < h" for y
    unfolding row_from_def bgr_def
    using px[OF that, of _ 0] px[OF that, of _ 1] px[OF that, of _ 2]
    by (intro arg_cong[where f = concat] map_cong) simp_all
  show ?thesis
    unfolding stored_pixel_array_def bmp_pixel_array_def bmp_row_def
    by (intro arg_cong[where f = concat] map_cong) (simp_all add: row)
qed

text \<open>
  C3. For a canvas of positive width \<open>w\<close> and height \<open>h\<close> with its \<open>4 * w * h\<close> RGBA
  bytes, the file from offset 54 on holds the source rows from the last to the first;
  a row holds its pixels from left to right as blue, green, red, the alpha byte dropped,
  followed by \<open>rowStride - 3 * w\<close> zero bytes, \<open>rowStride\<close> bytes in all.
\<close>

theorem canvasToBMP_pixel_array:
  assumes "0 < width c" and "0 < height c"
    and "length (pixels c) = 4 * width c * height c"
  shows "canvasToBMP c = Inr \<lparr>blobParts = [BufferPart (bmp_bytes c)], blob_type = js ''image/bmp''\<rparr>
       \<and> drop 54 (bmp_bytes c) = bmp_pixel_array (pixels c) (width c) (height c)
       \<and> length (bmp_row (pixels c) (width c) y) = rowStride (width c)"
proof -
  have "drop 54 (bmp_bytes c) = stored_pixel_array (pixels c) (width c) (height c)"
    unfolding bmp_bytes_le[OF assms(1,2)] by (simp add: length_le32 length_le16)
  moreover have "length (bmp_row (pixels c) (width c) y) = rowStride (width c)" for y
    using rowStride_ge[of "width c"]
    by (simp add: bmp_row_def bgr_def length_concat comp_def sum_list_triv)
  ultimately show ?thesis
    using canvasToBMP_returns[OF assms(1,2)] by (simp add: stored_pixel_array_eq[OF assms(3)])
qed

theorem canvasToBMP_pixel_array_witness:
  "0 < width example_canvas \<and> 0 < height example_canvas
   \<and> length (pixels example_canvas) = 4 * width example_canvas * height example_canvas
   \<and> drop 54 (bmp_bytes example_canvas) =
       [255, 0, 0, 0, 255, 255, 0, 0,  0, 0, 255, 0, 255, 0, 0, 0]"
proof -
  have "bmp_pixel_array (pixels example_canvas) 2 2 =
        [255, 0, 0, 0, 255, 255, 0, 0,  0, 0, 255, 0, 255, 0, 0, 0]"
    by code_simp
  then show ?thesis
    using canvasToBMP_pixel_array[of example_canvas]
    by (simp add: example_canvas_def)
qed

text \<open>
  C4. The 2 by 2 opaque image with pixels (255,0,0), (0,255,0), (0,0,255), (255,255,0),
  rows from top to bottom, is written as a file of 70 bytes: the 54 bytes of header, then
  the bottom source row as blue, green, red padded to 8 bytes, then the top row.
\<close>

theorem canvasToBMP_example:
  "canvasToBMP \<lparr>width = 2, height = 2,
      pixels = [255, 0, 0, 255,  0, 255, 0, 255,  0, 0, 255, 255,  255, 255, 0, 255]\<rparr>
   = Inr \<lparr>blobParts = [BufferPart
     ([0x42, 0x4D, 70, 0, 0, 0, 0, 0, 0, 0, 54, 0, 0, 0,
       40, 0, 0, 0, 2, 0, 0, 0, 2, 0, 0, 0, 1, 0, 24, 0, 0, 0, 0, 0, 16, 0, 0, 0,
       0x13, 0x0B, 0, 0, 0x13, 0x0B, 0, 0, 0, 0, 0, 0, 0, 0, 0, 0]
      @ [255, 0, 0,  0, 255, 255,  0, 0]
      @ [0, 0, 255,  0, 255, 0,  0, 0])], blob_type = js ''image/bmp''\<rparr>
   \<and> length ([0x42, 0x4D, 70, 0, 0, 0, 0, 0, 0, 0, 54, 0, 0, 0,
       40, 0, 0, 0, 2, 0, 0, 0, 2, 0, 0, 0, 1, 0, 24, 0, 0, 0, 0, 0, 16, 0, 0, 0,
       0x13, 0x0B, 0, 0, 0x13, 0x0B, 0, 0, 0, 0, 0, 0, 0, 0, 0, 0]
      @ [255, 0, 0,  0, 255, 255,  0, 0]
      @ [0, 0, 255,  0, 255, 0,  0, 0 :: byte]) = 70"
  by code_simp

section \<open>Strings and the data URL\<close>


















section \<open>The conversion pipeline\<close>



lemma convertImageFile_loaded:
  assumes "loadImageFromFile rt file = Inr img"
  shows "convertImageFile rt file outType quality scale =
     (let w = scaled_width img scale; h = scaled_height img scale; c = draw_canvas rt img w h in
      if outType = js ''image/svg+xml'' then
        bind (toDataURL rt c (js ''image/png'') quality) (\<lambda>pngData.
          Inr \<lparr>blobParts = [StringPart (svg_template w h pngData)],
               blob_type = js ''image/svg+xml''\<rparr>)
      else if outType = js ''image/bmp'' \<or> outType = js ''image/x-ms-bmp'' then canvasToBMP c
      else
        (case toBlob rt c outType (if outType = js ''image/png'' then None else Some quality) of
           Callback (Some blob) \<Rightarrow> Inr blob
         | Callback None \<Rightarrow> Inl (Error ''Conversion to blob failed.'')
         | Throws e \<Rightarrow> bind (toDataURL rt c outType quality) (dataURLToBlob rt)))"
  unfolding convertImageFile_def assms bind_Inr Let_def by (rule refl)

lemma native_types:
  "js ''image/png'' \<noteq> js ''image/svg+xml''" "js ''image/png'' \<noteq> js ''image/bmp''"
  "js ''image/png'' \<noteq> js ''image/x-ms-bmp''"
  "js ''image/jpeg'' \<noteq> js ''image/svg+xml''" "js ''image/jpeg'' \<noteq> js ''image/bmp''"
  "js ''image/jpeg'' \<noteq> js ''image/x-ms-bmp''" "js ''image/jpeg'' \<noteq> js ''image/png''"
  "js ''image/webp'' \<noteq> js ''image/svg+xml''" "js ''image/webp'' \<noteq> js ''image/bmp''"
  "js ''image/webp'' \<noteq> js ''image/x-ms-bmp''" "js ''image/webp'' \<noteq> js ''image/png''"
  by (simp_all add: js_def)

lemma native_branch:
  assumes "outType = js ''image/png'' \<or> outType = js ''image/jpeg'' \<or> outType = js ''image/webp''"
    and "loadImageFromFile rt file = Inr img"
  shows "convertImageFile rt file outType quality scale =
        (case toBlob rt (draw_canvas rt img (scaled_width img scale) (scaled_height img scale)) outType
                (if outType = js ''image/png'' then None else Some quality) of
           Callback (Some blob) \<Rightarrow> Inr blob
         | Callback None \<Rightarrow> Inl (Error ''Conversion to blob failed.'')
         | Throws e \<Rightarrow>
             bind (toDataURL rt (draw_canvas rt img (scaled_width img scale) (scaled_height img scale))
                     outType quality) (dataURLToBlob rt))"
  using assms(1) unfolding convertImageFile_loaded[OF assms(2)] Let_def
  by (elim disjE) (simp_all only: native_types if_False simp_thms)

text \<open>
  C6 (as amended). For the target types PNG, JPEG and WEBP and an image that loads: a blob
  delivered by \<open>toBlob\<close> is the result; when the call of \<open>toBlob\<close> throws, the result
  is that of the fallback, \<open>toDataURL\<close> at the requested type and quality decoded by
  \<open>dataURLToBlob\<close>; when \<open>toBlob\<close> delivers \<open>null\<close> the conversion fails with
  ``Conversion to blob failed.'' and the fallback is not tried. So an error comes out only
  when \<open>toBlob\<close> delivers \<open>null\<close>, or throws and the fallback fails too.
\<close>

theorem convertImageFile_native_fallback:
  assumes "outType = js ''image/png'' \<or> outType = js ''image/jpeg'' \<or> outType = js ''image/webp''"
    and "loadImageFromFile rt file = Inr img"
    and "c = draw_canvas rt img (scaled_width img scale) (scaled_height img scale)"
    and "native = toBlob rt c outType (if outType = js ''image/png'' then None else Some quality)"
    and "fallback = bind (toDataURL rt c outType quality) (dataURLToBlob rt)"
    and "result = convertImageFile rt file outType quality scale"
  shows "(native = Callback (Some b) \<longrightarrow> result = Inr b)
       \<and> (native = Throws e \<longrightarrow> result = fallback)
       \<and> (native = Callback None \<longrightarrow> result = Inl (Error ''Conversion to blob failed.''))
       \<and> (isl result \<longrightarrow>
            native = Callback None \<or> ((\<exists>e. native = Throws e) \<and> isl fallback))"
proof -
  have r: "result = (case native of
           Callback (Some blob) \<Rightarrow> Inr blob
         | Callback None \<Rightarrow> Inl (Error ''Conversion to blob failed.'')
         | Throws e \<Rightarrow> fallback)"
    unfolding assms(3-6) by (rule native_branch[OF assms(1,2)])
  show ?thesis
    unfolding r by (cases native) (auto split: option.splits)
qed

theorem convertImageFile_native_fallback_witness:
  "loadImageFromFile (example_runtime (Throws TypeError)) example_file = Inr example_image
   \<and> toBlob (example_runtime (Throws TypeError))
        (draw_canvas (example_runtime (Throws TypeError)) example_image
           (scaled_width example_image 1) (scaled_height example_image 1))
        (js ''image/jpeg'') (Some (8 / 10)) = Throws TypeError
   \<and> convertImageFile (example_runtime (Throws TypeError)) example_file (js ''image/jpeg'') (8 / 10) 1
       = Inr \<lparr>blobParts = [BufferPart [137, 80, 78, 71, 13, 10, 26, 10]],
              blob_type = js ''image/jpeg''\<rparr>"
proof -
  let ?rt = "example_runtime (Throws TypeError)"
  let ?c = "draw_canvas ?rt example_image (scaled_width example_image 1) (scaled_height example_image 1)"
  have t: "js ''image/jpeg'' = js ''image/png'' \<or> js ''image/jpeg'' = js ''image/jpeg''
      \<or> js ''image/jpeg'' = js ''image/webp''"
    by simp
  have l: "loadImageFromFile ?rt example_file = Inr example_image"
    by code_simp
  have n: "toBlob ?rt ?c (js ''image/jpeg'') (if js ''image/jpeg'' = js ''image/png'' then None else Some (8 / 10))
      = Throws TypeError"
    by (simp add: example_runtime_def)
  have n': "toBlob ?rt ?c (js ''image/jpeg'') (Some (8 / 10)) = Throws TypeError"
    by (simp add: example_runtime_def)
  have f: "bind (toDataURL ?rt ?c (js ''image/jpeg'') (8 / 10)) (dataURLToBlob ?rt)
      = Inr \<lparr>blobParts = [BufferPart [137, 80, 78, 71, 13, 10, 26, 10]],
              blob_type = js ''image/jpeg''\<rparr>"
    by code_simp
  have "convertImageFile ?rt example_file (js ''image/jpeg'') (8 / 10) 1
      = bind (toDataURL ?rt ?c (js ''image/jpeg'') (8 / 10)) (dataURLToBlob ?rt)"
    using convertImageFile_native_fallback[OF t l refl refl refl refl, where e = TypeError] n by blast
  then show ?thesis
    using l n' f by simp
qed

text \<open>
  The claim as written fails when the encoder reports its failure through the callback:
  \<open>toBlob\<close> delivers \<open>null\<close>, the fallback would return a blob, and the conversion
  fails all the same.
\<close>

theorem convertImageFile_native_fallback_counterexample:
  "toBlob (example_runtime (Callback None))
        (draw_canvas (example_runtime (Callback None)) example_image
           (scaled_width example_image 1) (scaled_height example_image 1))
        (js ''image/png'') None = Callback None
   \<and> bind (toDataURL (example_runtime (Callback None))
             (draw_canvas (example_runtime (Callback None)) example_image
                (scaled_width example_image 1) (scaled_height example_image 1))
             (js ''image/png'') (8 / 10))
          (dataURLToBlob (example_runtime (Callback None)))
       = Inr \<lparr>blobParts = [BufferPart [137, 80, 78, 71, 13, 10, 26, 10]],
              blob_type = js ''image/png''\<rparr>
   \<and> convertImageFile (example_runtime (Callback None)) example_file (js ''image/png'') (8 / 10) 1
       = Inl (Error ''Conversion to blob failed.'')"
  by code_simp






end
